theory Spec2Isabelle
  imports Complex_Main "HOL-Library.Word"
begin

unbundle bit_operations_syntax

section \<open>Scalars: the C type float\<close>

text \<open>
  \<^verbatim>\<open>MetalTypes.h\<close> declares four plain structs over two types it does not define
  itself: the C scalar \<^verbatim>\<open>float\<close> and \<^verbatim>\<open>vector_float3\<close> of \<^verbatim>\<open><simd/simd.h>\<close>.

  A \<^verbatim>\<open>float\<close> object is modelled by its 32-bit IEEE 754 binary32 bit pattern:
  bit 31 is the sign, bits 30..23 the biased exponent, bits 22..0 the fraction.
  Storing and loading a field never changes the pattern, so equality of the
  model is equality of bits.
\<close>

type_synonym float = "32 word"

definition float_sign :: "float \<Rightarrow> bool" where
  "float_sign f = bit f 31"

definition float_exponent :: "float \<Rightarrow> nat" where
  "float_exponent f = unat (drop_bit 23 f AND 0xFF)"

definition float_fraction :: "float \<Rightarrow> nat" where
  "float_fraction f = unat (f AND 0x7FFFFF)"

definition float_is_nan :: "float \<Rightarrow> bool" where
  "float_is_nan f \<longleftrightarrow> float_exponent f = 255 \<and> float_fraction f \<noteq> 0"

text \<open>
  The number a finite pattern denotes; \<open>None\<close> for the infinities and NaNs.
\<close>

definition float_valof :: "float \<Rightarrow> rat option" where
  "float_valof f =
     (let e = float_exponent f;
          m = float_fraction f;
          s = (if float_sign f then - 1 else 1 :: rat)
      in if e = 255 then None
         else if e = 0 then Some (s * (of_nat m / 2 ^ 149))
         else if e < 150 then Some (s * (of_nat (2 ^ 23 + m) / 2 ^ (150 - e)))
         else Some (s * (of_nat (2 ^ 23 + m) * 2 ^ (e - 150))))"

text \<open>
  The magnitude of a finite pattern with exponent field \<open>e\<close> and fraction field \<open>m\<close>,
  counted in units of \<open>1 / 2 ^ 149\<close>, the smallest positive value.
\<close>

definition float_units :: "nat \<Rightarrow> nat \<Rightarrow> nat" where
  "float_units e m = (if e = 0 then m else (2 ^ 23 + m) * 2 ^ (e - 1))"

text \<open>
  The comparison \<^verbatim>\<open><=\<close> of C on two floats. A NaN compares false with
  everything; otherwise the patterns order as sign-magnitude integers, which puts
  the two zeros together and the infinities at the ends.
\<close>

definition float_key :: "float \<Rightarrow> int" where
  "float_key f =
     (if float_sign f then - int (unat (f AND 0x7FFFFFFF)) else int (unat (f AND 0x7FFFFFFF)))"

definition float_le :: "float \<Rightarrow> float \<Rightarrow> bool" where
  "float_le a b \<longleftrightarrow> \<not> float_is_nan a \<and> \<not> float_is_nan b \<and> float_key a \<le> float_key b"

text \<open>The patterns of the literals \<^verbatim>\<open>0.0f\<close>, \<^verbatim>\<open>1.0f\<close> and \<^verbatim>\<open>2.0f\<close>.\<close>

definition float_zero :: float where
  "float_zero = 0x00000000"

definition float_one :: float where
  "float_one = 0x3F800000"

definition float_two :: float where
  "float_two = 0x40000000"

section \<open>Vectors: vector_float3\<close>

text \<open>
  Modelled from the spec: the type \<^verbatim>\<open>vector_float3\<close>, which the header takes from
  \<^verbatim>\<open><simd/simd.h>\<close> and the repository does not declare. The specification calls it
  a 3-component float vector and reads its lanes as \<^verbatim>\<open>.x\<close> (and so \<^verbatim>\<open>.y\<close>, \<^verbatim>\<open>.z\<close>).
  The lanes are named \<open>x_f\<close>, \<open>y_f\<close>, \<open>z_f\<close> here, which leaves \<open>x\<close>, \<open>y\<close>, \<open>z\<close>
  free as variables.
\<close>

record vector_float3 =
  x_f :: float
  y_f :: float
  z_f :: float

section \<open>The four structures of MetalTypes.h\<close>

record MeshVertex =
  position :: vector_float3
  normal :: vector_float3
  confidence :: float

text \<open>
  The fields \<^verbatim>\<open>min\<close> and \<^verbatim>\<open>max\<close> of \<^verbatim>\<open>BoundingBox\<close> carry the suffix \<open>_f\<close>: the
  plain names are the lattice operations of HOL.
\<close>

record BoundingBox =
  min_f :: vector_float3
  max_f :: vector_float3

record QualityMetrics =
  pointDensity :: float
  surfaceCompleteness :: float
  noiseLevel :: float
  featurePreservation :: float

record ProcessingParameters =
  spatialSigma :: float
  rangeSigma :: float
  confidenceThreshold :: float
  featureWeight :: float

section \<open>Facts about the scalar model\<close>

lemmas float_defs =
  float_valof_def float_exponent_def float_fraction_def float_sign_def
  float_is_nan_def float_key_def float_le_def float_zero_def float_one_def float_two_def

lemma float_zero_val: "float_valof float_zero = Some 0"
  by (simp add: float_defs)

lemma float_one_val: "float_valof float_one = Some 1"
  by (simp add: float_defs)

lemma float_two_val: "float_valof float_two = Some 2"
  by (simp add: float_defs)

lemma float_zero_le_one: "float_le float_zero float_one"
  by (simp add: float_defs)

lemma float_one_not_le_zero: "\<not> float_le float_one float_zero"
  by (simp add: float_defs)

lemma float_two_not_le_one: "\<not> float_le float_two float_one"
  by (simp add: float_defs)

text \<open>Both zeros compare equal, and a NaN is not below itself.\<close>

lemma float_le_zeros: "float_le 0x80000000 float_zero \<and> float_le float_zero 0x80000000"
  by (simp add: float_defs)

lemma float_le_nan: "float_is_nan 0x7FC00000 \<and> \<not> float_le 0x7FC00000 0x7FC00000"
  by (simp add: float_defs)

subsection \<open>The comparison agrees with the numbers denoted\<close>

text \<open>
  On finite patterns \<open>float_le\<close> is the order of the rational numbers that
  \<open>float_valof\<close> reads off them.
\<close>

lemma unat_and_mask_mod: "unat ((w :: 32 word) AND mask n) = unat w mod 2 ^ n"
proof -
  have "unat (w AND mask n) = unat (take_bit n w)"
    by (simp only: take_bit_eq_mask)
  also have "\<dots> = take_bit n (unat w)"
    by (simp only: unsigned_take_bit_eq)
  also have "\<dots> = unat w mod 2 ^ n"
    by (simp only: take_bit_eq_mod)
  finally show ?thesis .
qed

lemma float_mask_31: "(0x7FFFFFFF :: 32 word) = mask 31" by (simp add: mask_eq_exp_minus_1)
lemma float_mask_23: "(0x7FFFFF :: 32 word) = mask 23" by (simp add: mask_eq_exp_minus_1)
lemma float_mask_8: "(0xFF :: 32 word) = mask 8" by (simp add: mask_eq_exp_minus_1)

lemma float_fraction_mod: "float_fraction f = unat f mod 2 ^ 23"
  unfolding float_fraction_def by (simp only: float_mask_23 unat_and_mask_mod)

lemma float_exponent_mod: "float_exponent f = unat f div 2 ^ 23 mod 2 ^ 8"
proof -
  have "unat (drop_bit 23 f) = unat f div 2 ^ 23"
    unfolding unat_drop_bit_eq by (rule drop_bit_eq_div)
  then show ?thesis
    unfolding float_exponent_def by (simp only: float_mask_8 unat_and_mask_mod)
qed

lemma float_abs_mod: "unat ((f :: float) AND 0x7FFFFFFF) = unat f mod 2 ^ 31"
  by (simp only: float_mask_31 unat_and_mask_mod)

lemma float_split:
  "unat ((f :: float) AND 0x7FFFFFFF) = float_exponent f * 2 ^ 23 + float_fraction f"
proof -
  have "unat f mod (2 ^ 23 * 2 ^ 8) = 2 ^ 23 * (unat f div 2 ^ 23 mod 2 ^ 8) + unat f mod 2 ^ 23"
    by (rule mod_mult2_eq)
  then show ?thesis
    by (simp add: float_abs_mod float_exponent_mod float_fraction_mod)
qed

lemma float_fraction_lt: "float_fraction f < 2 ^ 23"
  by (simp add: float_fraction_mod)

lemma float_units_less_exp:
  assumes "e < e'" "m < 2 ^ 23"
  shows "float_units e m < float_units e' m'"
proof -
  have "float_units e m < 2 ^ 23 * 2 ^ e"
  proof (cases "e = 0")
    case True
    with assms show ?thesis by (simp add: float_units_def)
  next
    case False
    then obtain k where k: "e = Suc k" by (cases e) auto
    have "(2 ^ 23 + m) * 2 ^ k < (2 ^ 23 + 2 ^ 23) * 2 ^ k"
      using assms by simp
    then show ?thesis by (simp add: float_units_def k)
  qed
  also have "\<dots> \<le> 2 ^ 23 * 2 ^ (e' - 1)"
    using assms by simp
  also have "\<dots> \<le> float_units e' m'"
    using assms by (simp add: float_units_def)
  finally show ?thesis .
qed

lemma float_units_le_iff:
  assumes "m < 2 ^ 23" "m' < 2 ^ 23"
  shows "float_units e m \<le> float_units e' m' \<longleftrightarrow> e * 2 ^ 23 + m \<le> e' * 2 ^ 23 + m'"
proof -
  consider "e < e'" | "e' < e" | "e = e'" by linarith
  then show ?thesis
  proof cases
    case 1
    then have "Suc e \<le> e'" by simp
    then have "Suc e * 2 ^ 23 \<le> e' * 2 ^ 23" by (rule mult_le_mono1)
    with assms have "e * 2 ^ 23 + m \<le> e' * 2 ^ 23 + m'" by simp
    with float_units_less_exp [OF 1 assms(1), of m'] show ?thesis by simp
  next
    case 2
    then have "Suc e' \<le> e" by simp
    then have "Suc e' * 2 ^ 23 \<le> e * 2 ^ 23" by (rule mult_le_mono1)
    with assms have "e' * 2 ^ 23 + m' < e * 2 ^ 23 + m" by simp
    with float_units_less_exp [OF 2 assms(2), of m] show ?thesis by simp
  next
    case 3
    then show ?thesis by (simp add: float_units_def)
  qed
qed

lemma float_units_eq_0_iff: "float_units e m = 0 \<longleftrightarrow> e * 2 ^ 23 + m = 0"
  by (simp add: float_units_def)

lemma scale_down: "d + k = n \<Longrightarrow> of_nat x / (2 :: rat) ^ d = of_nat (x * 2 ^ k) / 2 ^ n"
  by (auto simp add: power_add)

lemma scale_up: "k = d + n \<Longrightarrow> of_nat x * (2 :: rat) ^ d = of_nat (x * 2 ^ k) / 2 ^ n"
  by (auto simp add: power_add)

lemma float_valof_units:
  assumes fin: "float_exponent f \<noteq> 255"
  shows "float_valof f = Some ((if float_sign f then - 1 else 1)
     * (of_nat (float_units (float_exponent f) (float_fraction f)) / 2 ^ 149))"
proof -
  define e where "e = float_exponent f"
  define m where "m = float_fraction f"
  define s :: rat where "s = (if float_sign f then - 1 else 1)"
  have valof: "float_valof f =
      (if e = 0 then Some (s * (of_nat m / 2 ^ 149))
       else if e < 150 then Some (s * (of_nat (2 ^ 23 + m) / 2 ^ (150 - e)))
       else Some (s * (of_nat (2 ^ 23 + m) * 2 ^ (e - 150))))"
    using fin unfolding float_valof_def Let_def e_def m_def s_def by (simp only: if_False)
  have units: "of_nat (float_units e m) / (2 :: rat) ^ 149 =
      (if e = 0 then of_nat m / 2 ^ 149
       else if e < 150 then of_nat (2 ^ 23 + m) / 2 ^ (150 - e)
       else of_nat (2 ^ 23 + m) * 2 ^ (e - 150))"
  proof -
    consider "e = 0" | "0 < e" "e < 150" | "150 \<le> e" by linarith
    then show ?thesis
    proof cases
      case 1
      then show ?thesis by (simp add: float_units_def)
    next
      case 2
      then have d: "(150 - e) + (e - 1) = 149" by simp
      from 2 have l: "float_units e m = (2 ^ 23 + m) * 2 ^ (e - 1)"
        by (simp add: float_units_def)
      from 2 have r: "(if e = 0 then of_nat m / 2 ^ 149
          else if e < 150 then of_nat (2 ^ 23 + m) / 2 ^ (150 - e)
          else of_nat (2 ^ 23 + m) * 2 ^ (e - 150)) = of_nat (2 ^ 23 + m) / (2 :: rat) ^ (150 - e)"
        by simp
      show ?thesis
        unfolding l r by (rule scale_down [OF d, symmetric])
    next
      case 3
      then have "e - 1 = (e - 150) + 149" by simp
      from scale_up [OF this, of "2 ^ 23 + m"] 3 show ?thesis
        unfolding float_units_def by auto
    qed
  qed
  show ?thesis
    unfolding valof e_def [symmetric] m_def [symmetric] s_def [symmetric] units
    by (simp only: if_distrib [of "\<lambda>x. Some (s * x)"] if_distrib [of Some] if_distrib [of "\<lambda>x. s * x"])
qed

lemma float_valof_finite: "float_valof f = Some u \<Longrightarrow> float_exponent f \<noteq> 255"
  by (auto simp add: float_valof_def)

lemma float_le_valof:
  assumes "float_valof a = Some u" and "float_valof b = Some v"
  shows "float_le a b \<longleftrightarrow> u \<le> v"
proof -
  define ka where "ka = float_exponent a * 2 ^ 23 + float_fraction a"
  define kb where "kb = float_exponent b * 2 ^ 23 + float_fraction b"
  define ua where "ua = float_units (float_exponent a) (float_fraction a)"
  define ub where "ub = float_units (float_exponent b) (float_fraction b)"
  define P :: rat where "P = 2 ^ 149"
  have P: "0 < P" by (simp add: P_def)
  have fa: "float_exponent a \<noteq> 255" and fb: "float_exponent b \<noteq> 255"
    using assms by (auto dest: float_valof_finite)
  have u: "u = (if float_sign a then - 1 else 1) * (of_nat ua / P)"
    using float_valof_units [OF fa] assms(1) unfolding ua_def P_def by simp
  have v: "v = (if float_sign b then - 1 else 1) * (of_nat ub / P)"
    using float_valof_units [OF fb] assms(2) unfolding ub_def P_def by simp
  have le: "ua \<le> ub \<longleftrightarrow> ka \<le> kb" and ge: "ub \<le> ua \<longleftrightarrow> kb \<le> ka"
    unfolding ua_def ub_def ka_def kb_def
    by (rule float_units_le_iff [OF float_fraction_lt float_fraction_lt])+
  have za: "ua = 0 \<longleftrightarrow> ka = 0" and zb: "ub = 0 \<longleftrightarrow> kb = 0"
    unfolding ua_def ub_def ka_def kb_def by (rule float_units_eq_0_iff)+
  have nn: "\<not> float_is_nan a" "\<not> float_is_nan b"
    using fa fb by (simp_all add: float_is_nan_def)
  have key: "float_le a b \<longleftrightarrow>
      (if float_sign a then - int ka else int ka) \<le> (if float_sign b then - int kb else int kb)"
    using nn unfolding float_le_def float_key_def float_split ka_def kb_def by simp
  have div: "of_nat x / P \<le> of_nat y / P \<longleftrightarrow> x \<le> y" for x y :: nat
    using P by (simp add: divide_le_cancel)
  have nonneg: "0 \<le> of_nat x / P" for x :: nat
    using P by simp
  have zero: "of_nat x / P = 0 \<longleftrightarrow> x = 0" for x :: nat
    using P by simp
  show ?thesis
  proof (cases "float_sign a"; cases "float_sign b")
    assume "float_sign a" "float_sign b"
    then show ?thesis using ge by (simp add: key u v div)
  next
    assume "float_sign a" "\<not> float_sign b"
    moreover have "- (of_nat ua / P) \<le> of_nat ub / P"
      using nonneg [of ua] nonneg [of ub] by linarith
    ultimately show ?thesis by (simp add: key u v)
  next
    assume s: "\<not> float_sign a" "float_sign b"
    have "of_nat ua / P \<le> - (of_nat ub / P) \<longleftrightarrow> ua = 0 \<and> ub = 0"
      using nonneg [of ua] nonneg [of ub] zero [of ua] zero [of ub] by linarith
    moreover have "int ka \<le> - int kb \<longleftrightarrow> ka = 0 \<and> kb = 0"
      by linarith
    ultimately show ?thesis using s za zb by (simp add: key u v)
  next
    assume "\<not> float_sign a" "\<not> float_sign b"
    then show ?thesis using le by (simp add: key u v div)
  qed
qed

section \<open>The structures as products of their fields\<close>

text \<open>
  The positional constructor \<open>make\<close> of a record takes the fields in the order of
  the declaration, as the initialiser \<^verbatim>\<open>{p, n, c}\<close> of C does. Each one is a
  bijection between the tuples of field values and the values of the structure.
\<close>

lemma vector_float3_bij:
  "bij_betw (\<lambda>(a, b, c). vector_float3.make a b c) UNIV (UNIV :: vector_float3 set)"
  unfolding bij_betw_def
proof
  show "inj_on (\<lambda>(a, b, c). vector_float3.make a b c) UNIV"
    by (auto simp add: inj_on_def vector_float3.defs)
  show "(\<lambda>(a, b, c). vector_float3.make a b c) ` UNIV = (UNIV :: vector_float3 set)"
  proof (rule set_eqI, rule iffI)
    fix v :: vector_float3
    show "v \<in> (\<lambda>(a, b, c). vector_float3.make a b c) ` UNIV"
      by (cases v) (auto simp add: image_iff vector_float3.defs)
  qed simp
qed

lemma card_vector_float3: "card (UNIV :: vector_float3 set) = 2 ^ 96"
  using bij_betw_same_card [OF vector_float3_bij]
  by (simp add: card_word card_cartesian_product flip: UNIV_Times_UNIV)

lemma MeshVertex_bij:
  "bij_betw (\<lambda>(p, n, c). MeshVertex.make p n c) UNIV (UNIV :: MeshVertex set)"
  unfolding bij_betw_def
proof
  show "inj_on (\<lambda>(p, n, c). MeshVertex.make p n c) UNIV"
    by (auto simp add: inj_on_def MeshVertex.defs)
  show "(\<lambda>(p, n, c). MeshVertex.make p n c) ` UNIV = (UNIV :: MeshVertex set)"
  proof (rule set_eqI, rule iffI)
    fix v :: MeshVertex
    show "v \<in> (\<lambda>(p, n, c). MeshVertex.make p n c) ` UNIV"
      by (cases v) (auto simp add: image_iff MeshVertex.defs)
  qed simp
qed

lemma card_MeshVertex: "card (UNIV :: MeshVertex set) = 2 ^ 224"
  using bij_betw_same_card [OF MeshVertex_bij]
  by (simp add: card_word card_vector_float3 card_cartesian_product flip: UNIV_Times_UNIV)

lemma BoundingBox_bij:
  "bij_betw (\<lambda>(lo, hi). BoundingBox.make lo hi) UNIV (UNIV :: BoundingBox set)"
  unfolding bij_betw_def
proof
  show "inj_on (\<lambda>(lo, hi). BoundingBox.make lo hi) UNIV"
    by (auto simp add: inj_on_def BoundingBox.defs)
  show "(\<lambda>(lo, hi). BoundingBox.make lo hi) ` UNIV = (UNIV :: BoundingBox set)"
  proof (rule set_eqI, rule iffI)
    fix b :: BoundingBox
    show "b \<in> (\<lambda>(lo, hi). BoundingBox.make lo hi) ` UNIV"
      by (cases b) (auto simp add: image_iff BoundingBox.defs)
  qed simp
qed

lemma card_BoundingBox: "card (UNIV :: BoundingBox set) = 2 ^ 192"
  using bij_betw_same_card [OF BoundingBox_bij]
  by (simp add: card_vector_float3 card_cartesian_product flip: UNIV_Times_UNIV)

lemma QualityMetrics_bij:
  "bij_betw (\<lambda>(d, s, n, f). QualityMetrics.make d s n f) UNIV (UNIV :: QualityMetrics set)"
  unfolding bij_betw_def
proof
  show "inj_on (\<lambda>(d, s, n, f). QualityMetrics.make d s n f) UNIV"
    by (auto simp add: inj_on_def QualityMetrics.defs)
  show "(\<lambda>(d, s, n, f). QualityMetrics.make d s n f) ` UNIV = (UNIV :: QualityMetrics set)"
  proof (rule set_eqI, rule iffI)
    fix q :: QualityMetrics
    show "q \<in> (\<lambda>(d, s, n, f). QualityMetrics.make d s n f) ` UNIV"
      by (cases q) (auto simp add: image_iff QualityMetrics.defs)
  qed simp
qed

lemma card_QualityMetrics: "card (UNIV :: QualityMetrics set) = 2 ^ 128"
  using bij_betw_same_card [OF QualityMetrics_bij]
  by (simp add: card_word card_cartesian_product flip: UNIV_Times_UNIV)

lemma ProcessingParameters_bij:
  "bij_betw (\<lambda>(s, r, t, w). ProcessingParameters.make s r t w)
     UNIV (UNIV :: ProcessingParameters set)"
  unfolding bij_betw_def
proof
  show "inj_on (\<lambda>(s, r, t, w). ProcessingParameters.make s r t w) UNIV"
    by (auto simp add: inj_on_def ProcessingParameters.defs)
  show "(\<lambda>(s, r, t, w). ProcessingParameters.make s r t w) ` UNIV
          = (UNIV :: ProcessingParameters set)"
  proof (rule set_eqI, rule iffI)
    fix r :: ProcessingParameters
    show "r \<in> (\<lambda>(s, r, t, w). ProcessingParameters.make s r t w) ` UNIV"
      by (cases r) (auto simp add: image_iff ProcessingParameters.defs)
  qed simp
qed

lemma card_ProcessingParameters: "card (UNIV :: ProcessingParameters set) = 2 ^ 128"
  using bij_betw_same_card [OF ProcessingParameters_bij]
  by (simp add: card_word card_cartesian_product flip: UNIV_Times_UNIV)

section \<open>Field lists of the four structures\<close>

text \<open>
  C1. \<^verbatim>\<open>MeshVertex\<close> has exactly three fields, in this order and of these types:
  \<open>position\<close> (a vector of three floats), \<open>normal\<close> (a vector of three floats) and
  \<open>confidence\<close> (a float). The constructor takes these three, in this order, and
  is a bijection onto the type, so a value holds nothing else: there are as many
  values as triples of 96, 96 and 32 bits.
\<close>

theorem MeshVertex_fields:
  "bij_betw (\<lambda>(p :: vector_float3, n :: vector_float3, c :: float). MeshVertex.make p n c)
     UNIV (UNIV :: MeshVertex set)
   \<and> MeshVertex.make p n c = \<lparr>position = p, normal = n, confidence = c\<rparr>
   \<and> card (UNIV :: MeshVertex set) = 2 ^ (96 + 96 + 32)"
  using MeshVertex_bij card_MeshVertex by (simp add: MeshVertex.defs)

text \<open>
  C2. \<^verbatim>\<open>BoundingBox\<close> has exactly two fields, in this order and of these types:
  \<open>min\<close> and \<open>max\<close>, each a vector of three floats.
\<close>

theorem BoundingBox_fields:
  "bij_betw (\<lambda>(lo :: vector_float3, hi :: vector_float3). BoundingBox.make lo hi)
     UNIV (UNIV :: BoundingBox set)
   \<and> BoundingBox.make lo hi = \<lparr>min_f = lo, max_f = hi\<rparr>
   \<and> card (UNIV :: BoundingBox set) = 2 ^ (96 + 96)"
  using BoundingBox_bij card_BoundingBox by (simp add: BoundingBox.defs)

text \<open>
  C3. \<^verbatim>\<open>QualityMetrics\<close> has exactly four fields, all floats, in this order:
  \<open>pointDensity\<close>, \<open>surfaceCompleteness\<close>, \<open>noiseLevel\<close>, \<open>featurePreservation\<close>.
\<close>

theorem QualityMetrics_fields:
  "bij_betw (\<lambda>(d :: float, s :: float, n :: float, f :: float). QualityMetrics.make d s n f)
     UNIV (UNIV :: QualityMetrics set)
   \<and> QualityMetrics.make d s n f
       = \<lparr>pointDensity = d, surfaceCompleteness = s, noiseLevel = n, featurePreservation = f\<rparr>
   \<and> card (UNIV :: QualityMetrics set) = 2 ^ (32 + 32 + 32 + 32)"
  using QualityMetrics_bij card_QualityMetrics by (simp add: QualityMetrics.defs)

text \<open>
  C4. \<^verbatim>\<open>ProcessingParameters\<close> has exactly four fields, all floats, in this order:
  \<open>spatialSigma\<close>, \<open>rangeSigma\<close>, \<open>confidenceThreshold\<close>, \<open>featureWeight\<close>.
\<close>

theorem ProcessingParameters_fields:
  "bij_betw (\<lambda>(s :: float, r :: float, t :: float, w :: float).
       ProcessingParameters.make s r t w)
     UNIV (UNIV :: ProcessingParameters set)
   \<and> ProcessingParameters.make s r t w
       = \<lparr>spatialSigma = s, rangeSigma = r, confidenceThreshold = t, featureWeight = w\<rparr>
   \<and> card (UNIV :: ProcessingParameters set) = 2 ^ (32 + 32 + 32 + 32)"
  using ProcessingParameters_bij card_ProcessingParameters
  by (simp add: ProcessingParameters.defs)

section \<open>Construction and projection\<close>

text \<open>
  C5. For every choice of field values and each of the four structures,
  constructing the structure from those values and projecting each field gives
  back exactly the value supplied, bit for bit. In particular the
  \<^verbatim>\<open>BoundingBox\<close> built from \<open>min = (0, 0, 0)\<close> and \<open>max = (1, 1, 1)\<close> has
  \<open>min.x = 0\<close> and \<open>max.x = 1\<close>.
\<close>

theorem construct_project_roundtrip:
  "position \<lparr>position = p, normal = n, confidence = c\<rparr> = p
   \<and> normal \<lparr>position = p, normal = n, confidence = c\<rparr> = n
   \<and> confidence \<lparr>position = p, normal = n, confidence = c\<rparr> = c
   \<and> min_f \<lparr>min_f = lo, max_f = hi\<rparr> = lo
   \<and> max_f \<lparr>min_f = lo, max_f = hi\<rparr> = hi
   \<and> pointDensity \<lparr>pointDensity = d, surfaceCompleteness = s, noiseLevel = l,
        featurePreservation = f\<rparr> = d
   \<and> surfaceCompleteness \<lparr>pointDensity = d, surfaceCompleteness = s, noiseLevel = l,
        featurePreservation = f\<rparr> = s
   \<and> noiseLevel \<lparr>pointDensity = d, surfaceCompleteness = s, noiseLevel = l,
        featurePreservation = f\<rparr> = l
   \<and> featurePreservation \<lparr>pointDensity = d, surfaceCompleteness = s, noiseLevel = l,
        featurePreservation = f\<rparr> = f
   \<and> spatialSigma \<lparr>spatialSigma = ss, rangeSigma = rs, confidenceThreshold = t,
        featureWeight = w\<rparr> = ss
   \<and> rangeSigma \<lparr>spatialSigma = ss, rangeSigma = rs, confidenceThreshold = t,
        featureWeight = w\<rparr> = rs
   \<and> confidenceThreshold \<lparr>spatialSigma = ss, rangeSigma = rs, confidenceThreshold = t,
        featureWeight = w\<rparr> = t
   \<and> featureWeight \<lparr>spatialSigma = ss, rangeSigma = rs, confidenceThreshold = t,
        featureWeight = w\<rparr> = w
   \<and> x_f (min_f \<lparr>min_f = \<lparr>x_f = float_zero, y_f = float_zero, z_f = float_zero\<rparr>,
                   max_f = \<lparr>x_f = float_one, y_f = float_one, z_f = float_one\<rparr>\<rparr>)
       = float_zero
   \<and> x_f (max_f \<lparr>min_f = \<lparr>x_f = float_zero, y_f = float_zero, z_f = float_zero\<rparr>,
                   max_f = \<lparr>x_f = float_one, y_f = float_one, z_f = float_one\<rparr>\<rparr>)
       = float_one
   \<and> float_valof (x_f (min_f
         \<lparr>min_f = \<lparr>x_f = float_zero, y_f = float_zero, z_f = float_zero\<rparr>,
          max_f = \<lparr>x_f = float_one, y_f = float_one, z_f = float_one\<rparr>\<rparr>)) = Some 0
   \<and> float_valof (x_f (max_f
         \<lparr>min_f = \<lparr>x_f = float_zero, y_f = float_zero, z_f = float_zero\<rparr>,
          max_f = \<lparr>x_f = float_one, y_f = float_one, z_f = float_one\<rparr>\<rparr>)) = Some 1"
  by (simp add: float_zero_val float_one_val)

section \<open>The bounding-box ordering\<close>

text \<open>
  C6, as the specification words it: for every value of type \<^verbatim>\<open>BoundingBox\<close> each
  component of \<open>min\<close> is at most the matching component of \<open>max\<close>. The header only
  declares the fields, so the box with \<open>min = (1, 1, 1)\<close> and \<open>max = (0, 0, 0)\<close> is
  a value of the type, and it breaks the ordering in every component.
\<close>

theorem BoundingBox_ordering_counterexample:
  "\<not> (float_le
         (x_f (min_f \<lparr>min_f = \<lparr>x_f = float_one, y_f = float_one, z_f = float_one\<rparr>,
                      max_f = \<lparr>x_f = float_zero, y_f = float_zero, z_f = float_zero\<rparr>\<rparr>))
         (x_f (max_f \<lparr>min_f = \<lparr>x_f = float_one, y_f = float_one, z_f = float_one\<rparr>,
                      max_f = \<lparr>x_f = float_zero, y_f = float_zero, z_f = float_zero\<rparr>\<rparr>))
      \<and> float_le
         (y_f (min_f \<lparr>min_f = \<lparr>x_f = float_one, y_f = float_one, z_f = float_one\<rparr>,
                      max_f = \<lparr>x_f = float_zero, y_f = float_zero, z_f = float_zero\<rparr>\<rparr>))
         (y_f (max_f \<lparr>min_f = \<lparr>x_f = float_one, y_f = float_one, z_f = float_one\<rparr>,
                      max_f = \<lparr>x_f = float_zero, y_f = float_zero, z_f = float_zero\<rparr>\<rparr>))
      \<and> float_le
         (z_f (min_f \<lparr>min_f = \<lparr>x_f = float_one, y_f = float_one, z_f = float_one\<rparr>,
                      max_f = \<lparr>x_f = float_zero, y_f = float_zero, z_f = float_zero\<rparr>\<rparr>))
         (z_f (max_f \<lparr>min_f = \<lparr>x_f = float_one, y_f = float_one, z_f = float_one\<rparr>,
                      max_f = \<lparr>x_f = float_zero, y_f = float_zero, z_f = float_zero\<rparr>\<rparr>)))"
  by (simp add: float_one_not_le_zero)

text \<open>
  C6, amended: the type does not enforce the ordering. Any two vectors \<open>lo\<close> and
  \<open>hi\<close> make a \<^verbatim>\<open>BoundingBox\<close>, and each component of its \<open>min\<close> is at most the
  matching component of its \<open>max\<close> exactly when the vectors supplied are ordered
  so; keeping the ordering is left to whoever fills the structure in.
\<close>

theorem BoundingBox_ordering_iff:
  "(float_le (x_f (min_f \<lparr>min_f = lo, max_f = hi\<rparr>)) (x_f (max_f \<lparr>min_f = lo, max_f = hi\<rparr>))
    \<and> float_le (y_f (min_f \<lparr>min_f = lo, max_f = hi\<rparr>)) (y_f (max_f \<lparr>min_f = lo, max_f = hi\<rparr>))
    \<and> float_le (z_f (min_f \<lparr>min_f = lo, max_f = hi\<rparr>)) (z_f (max_f \<lparr>min_f = lo, max_f = hi\<rparr>)))
   \<longleftrightarrow>
   (float_le (x_f lo) (x_f hi) \<and> float_le (y_f lo) (y_f hi) \<and> float_le (z_f lo) (z_f hi))"
  by simp

theorem BoundingBox_ordering_iff_witness:
  "float_le (x_f (min_f \<lparr>min_f = \<lparr>x_f = float_zero, y_f = float_zero, z_f = float_zero\<rparr>,
                        max_f = \<lparr>x_f = float_one, y_f = float_one, z_f = float_one\<rparr>\<rparr>))
            (x_f (max_f \<lparr>min_f = \<lparr>x_f = float_zero, y_f = float_zero, z_f = float_zero\<rparr>,
                        max_f = \<lparr>x_f = float_one, y_f = float_one, z_f = float_one\<rparr>\<rparr>))
   \<and> float_le (y_f (min_f \<lparr>min_f = \<lparr>x_f = float_zero, y_f = float_zero, z_f = float_zero\<rparr>,
                        max_f = \<lparr>x_f = float_one, y_f = float_one, z_f = float_one\<rparr>\<rparr>))
            (y_f (max_f \<lparr>min_f = \<lparr>x_f = float_zero, y_f = float_zero, z_f = float_zero\<rparr>,
                        max_f = \<lparr>x_f = float_one, y_f = float_one, z_f = float_one\<rparr>\<rparr>))
   \<and> float_le (z_f (min_f \<lparr>min_f = \<lparr>x_f = float_zero, y_f = float_zero, z_f = float_zero\<rparr>,
                        max_f = \<lparr>x_f = float_one, y_f = float_one, z_f = float_one\<rparr>\<rparr>))
            (z_f (max_f \<lparr>min_f = \<lparr>x_f = float_zero, y_f = float_zero, z_f = float_zero\<rparr>,
                        max_f = \<lparr>x_f = float_one, y_f = float_one, z_f = float_one\<rparr>\<rparr>))"
proof -
  have ordered: "float_le (x_f \<lparr>x_f = float_zero, y_f = float_zero, z_f = float_zero\<rparr>)
                   (x_f \<lparr>x_f = float_one, y_f = float_one, z_f = float_one\<rparr>)
      \<and> float_le (y_f \<lparr>x_f = float_zero, y_f = float_zero, z_f = float_zero\<rparr>)
                   (y_f \<lparr>x_f = float_one, y_f = float_one, z_f = float_one\<rparr>)
      \<and> float_le (z_f \<lparr>x_f = float_zero, y_f = float_zero, z_f = float_zero\<rparr>)
                   (z_f \<lparr>x_f = float_one, y_f = float_one, z_f = float_one\<rparr>)"
    by (simp add: float_zero_le_one)
  show ?thesis
    by (rule iffD2 [OF BoundingBox_ordering_iff
          [of "\<lparr>x_f = float_zero, y_f = float_zero, z_f = float_zero\<rparr>"
              "\<lparr>x_f = float_one, y_f = float_one, z_f = float_one\<rparr>"] ordered])
qed

section \<open>Construction never fails\<close>

text \<open>
  C7. Construction of each of the four structures is total: whatever the field
  values, a value with exactly those fields exists, and nothing is validated,
  clamped or rejected. In particular every float \<open>c\<close>, inside \<open>[0, 1]\<close> or not, is
  the confidence of a \<^verbatim>\<open>MeshVertex\<close>, and projecting \<open>confidence\<close> returns \<open>c\<close>
  unchanged.
\<close>

theorem construction_total:
  "(\<exists>v :: MeshVertex. position v = p \<and> normal v = n \<and> confidence v = c)
   \<and> (\<exists>b :: BoundingBox. min_f b = lo \<and> max_f b = hi)
   \<and> (\<exists>q :: QualityMetrics. pointDensity q = d \<and> surfaceCompleteness q = s
          \<and> noiseLevel q = l \<and> featurePreservation q = f)
   \<and> (\<exists>r :: ProcessingParameters. spatialSigma r = ss \<and> rangeSigma r = rs
          \<and> confidenceThreshold r = t \<and> featureWeight r = w)
   \<and> confidence \<lparr>position = p, normal = n, confidence = c\<rparr> = c
   \<and> confidence ` (UNIV :: MeshVertex set) = UNIV"
proof -
  have "\<exists>v :: MeshVertex. position v = p \<and> normal v = n \<and> confidence v = c"
    by (rule exI [of _ "\<lparr>position = p, normal = n, confidence = c\<rparr>"]) simp
  moreover have "\<exists>b :: BoundingBox. min_f b = lo \<and> max_f b = hi"
    by (rule exI [of _ "\<lparr>min_f = lo, max_f = hi\<rparr>"]) simp
  moreover have "\<exists>q :: QualityMetrics. pointDensity q = d \<and> surfaceCompleteness q = s
      \<and> noiseLevel q = l \<and> featurePreservation q = f"
    by (rule exI [of _ "\<lparr>pointDensity = d, surfaceCompleteness = s, noiseLevel = l,
          featurePreservation = f\<rparr>"]) simp
  moreover have "\<exists>r :: ProcessingParameters. spatialSigma r = ss \<and> rangeSigma r = rs
      \<and> confidenceThreshold r = t \<and> featureWeight r = w"
    by (rule exI [of _ "\<lparr>spatialSigma = ss, rangeSigma = rs, confidenceThreshold = t,
          featureWeight = w\<rparr>"]) simp
  moreover have "confidence ` (UNIV :: MeshVertex set) = UNIV"
  proof (rule surjI)
    fix k :: float
    show "confidence \<lparr>position = p, normal = n, confidence = k\<rparr> = k"
      by simp
  qed
  ultimately show ?thesis
    by simp
qed

text \<open>
  The instance \<open>c = 2.0\<close>, which lies outside \<open>[0, 1]\<close>: the vertex is built and
  reads back \<open>2.0\<close>.
\<close>

theorem construction_total_witness:
  "\<not> (float_le float_zero float_two \<and> float_le float_two float_one)
   \<and> float_valof float_two = Some 2
   \<and> confidence \<lparr>position = \<lparr>x_f = float_zero, y_f = float_zero, z_f = float_zero\<rparr>,
                  normal = \<lparr>x_f = float_zero, y_f = float_zero, z_f = float_one\<rparr>,
                  confidence = float_two\<rparr> = float_two"
  using construction_total
    [of "\<lparr>x_f = float_zero, y_f = float_zero, z_f = float_zero\<rparr>"
        "\<lparr>x_f = float_zero, y_f = float_zero, z_f = float_one\<rparr>" float_two]
  by (simp add: float_two_not_le_one float_two_val)

section \<open>Updating one field\<close>

text \<open>
  C9. For each of the four structures, assigning to one field of a value leaves
  every other field of that value as it was.
\<close>

theorem field_update_frame:
  "normal ((v :: MeshVertex)\<lparr>position := a_position\<rparr>) = normal v
   \<and> confidence (v\<lparr>position := a_position\<rparr>) = confidence v
   \<and> position (v\<lparr>normal := a_normal\<rparr>) = position v
   \<and> confidence (v\<lparr>normal := a_normal\<rparr>) = confidence v
   \<and> position (v\<lparr>confidence := a_confidence\<rparr>) = position v
   \<and> normal (v\<lparr>confidence := a_confidence\<rparr>) = normal v
   \<and> max_f ((b :: BoundingBox)\<lparr>min_f := a_min_f\<rparr>) = max_f b
   \<and> min_f (b\<lparr>max_f := a_max_f\<rparr>) = min_f b
   \<and> surfaceCompleteness ((q :: QualityMetrics)\<lparr>pointDensity := a_pointDensity\<rparr>)
       = surfaceCompleteness q
   \<and> noiseLevel (q\<lparr>pointDensity := a_pointDensity\<rparr>) = noiseLevel q
   \<and> featurePreservation (q\<lparr>pointDensity := a_pointDensity\<rparr>) = featurePreservation q
   \<and> pointDensity (q\<lparr>surfaceCompleteness := a_surfaceCompleteness\<rparr>) = pointDensity q
   \<and> noiseLevel (q\<lparr>surfaceCompleteness := a_surfaceCompleteness\<rparr>) = noiseLevel q
   \<and> featurePreservation (q\<lparr>surfaceCompleteness := a_surfaceCompleteness\<rparr>)
       = featurePreservation q
   \<and> pointDensity (q\<lparr>noiseLevel := a_noiseLevel\<rparr>) = pointDensity q
   \<and> surfaceCompleteness (q\<lparr>noiseLevel := a_noiseLevel\<rparr>) = surfaceCompleteness q
   \<and> featurePreservation (q\<lparr>noiseLevel := a_noiseLevel\<rparr>) = featurePreservation q
   \<and> pointDensity (q\<lparr>featurePreservation := a_featurePreservation\<rparr>) = pointDensity q
   \<and> surfaceCompleteness (q\<lparr>featurePreservation := a_featurePreservation\<rparr>)
       = surfaceCompleteness q
   \<and> noiseLevel (q\<lparr>featurePreservation := a_featurePreservation\<rparr>) = noiseLevel q
   \<and> rangeSigma ((r :: ProcessingParameters)\<lparr>spatialSigma := a_spatialSigma\<rparr>) = rangeSigma r
   \<and> confidenceThreshold (r\<lparr>spatialSigma := a_spatialSigma\<rparr>) = confidenceThreshold r
   \<and> featureWeight (r\<lparr>spatialSigma := a_spatialSigma\<rparr>) = featureWeight r
   \<and> spatialSigma (r\<lparr>rangeSigma := a_rangeSigma\<rparr>) = spatialSigma r
   \<and> confidenceThreshold (r\<lparr>rangeSigma := a_rangeSigma\<rparr>) = confidenceThreshold r
   \<and> featureWeight (r\<lparr>rangeSigma := a_rangeSigma\<rparr>) = featureWeight r
   \<and> spatialSigma (r\<lparr>confidenceThreshold := a_confidenceThreshold\<rparr>) = spatialSigma r
   \<and> rangeSigma (r\<lparr>confidenceThreshold := a_confidenceThreshold\<rparr>) = rangeSigma r
   \<and> featureWeight (r\<lparr>confidenceThreshold := a_confidenceThreshold\<rparr>) = featureWeight r
   \<and> spatialSigma (r\<lparr>featureWeight := a_featureWeight\<rparr>) = spatialSigma r
   \<and> rangeSigma (r\<lparr>featureWeight := a_featureWeight\<rparr>) = rangeSigma r
   \<and> confidenceThreshold (r\<lparr>featureWeight := a_featureWeight\<rparr>) = confidenceThreshold r"
  by simp

section \<open>Equality of structures\<close>

text \<open>
  C10. Each of the four structures is the product of its fields: two values of
  the same structure are equal if and only if all their fields are equal.
\<close>

theorem struct_equality_iff:
  "((v :: MeshVertex) = v' \<longleftrightarrow>
      position v = position v' \<and> normal v = normal v' \<and> confidence v = confidence v')
   \<and> ((b :: BoundingBox) = b' \<longleftrightarrow>
      min_f b = min_f b' \<and> max_f b = max_f b')
   \<and> ((q :: QualityMetrics) = q' \<longleftrightarrow>
      pointDensity q = pointDensity q' \<and> surfaceCompleteness q = surfaceCompleteness q'
      \<and> noiseLevel q = noiseLevel q' \<and> featurePreservation q = featurePreservation q')
   \<and> ((r :: ProcessingParameters) = r' \<longleftrightarrow>
      spatialSigma r = spatialSigma r' \<and> rangeSigma r = rangeSigma r'
      \<and> confidenceThreshold r = confidenceThreshold r' \<and> featureWeight r = featureWeight r')"
  by auto

end
